theory Spec2Isabelle
  imports Complex_Main
begin

section \<open>Duplicate image search: pair generation and comparators\<close>

text \<open>
  A shallow embedding of \<^verbatim>\<open>duplicate.py\<close>. File paths are strings. Exceptions are values
  of type \<open>exn\<close>; a computation that may raise returns \<open>exn + 'a\<close> with \<open>Inl\<close> the raised
  exception.
\<close>

subsection \<open>Exceptions\<close>

text \<open>
  In Python 3 \<^verbatim>\<open>IOError\<close> is an alias of \<^verbatim>\<open>OSError\<close>, so \<open>IOError\<close> stands for
  \<^verbatim>\<open>OSError\<close> and all its subclasses (\<^verbatim>\<open>FileNotFoundError\<close>, \<^verbatim>\<open>PermissionError\<close>, ...).
\<close>

datatype exn = IOError | TypeError | ZeroDivisionError | ValueError | OverflowError

text \<open>What a call hands back to its caller: the returned value, or nothing when it raised.\<close>

fun returned :: "exn + 'a \<Rightarrow> 'a option" where
  "returned (Inl e) = None"
| "returned (Inr v) = Some v"

text \<open>
  Calls made one after the other: the list of their values, or the first exception raised.
\<close>

fun collect :: "(exn + 'a) list \<Rightarrow> exn + 'a list" where
  "collect [] = Inr []"
| "collect (Inl e # rs) = Inl e"
| "collect (Inr v # rs) = (case collect rs of Inl e \<Rightarrow> Inl e | Inr vs \<Rightarrow> Inr (v # vs))"

subsection \<open>Floats\<close>

text \<open>
  A Python \<^verbatim>\<open>float\<close> is a double: a finite number, an infinity or a NaN. Every finite
  double is a real number, and the comparisons \<^verbatim>\<open><\<close> and \<^verbatim>\<open><=\<close> of two floats are exact:
  they are false as soon as one side is a NaN and follow the order of the extended reals
  otherwise.
\<close>

datatype pyfloat = Finite real | PosInf | NegInf | NaN

fun fless :: "pyfloat \<Rightarrow> pyfloat \<Rightarrow> bool" where
  "fless NaN y = False"
| "fless x NaN = False"
| "fless (Finite a) (Finite b) = (a < b)"
| "fless (Finite a) PosInf = True"
| "fless (Finite a) NegInf = False"
| "fless PosInf y = False"
| "fless NegInf NegInf = False"
| "fless NegInf y = True"

fun fle :: "pyfloat \<Rightarrow> pyfloat \<Rightarrow> bool" where
  "fle NaN y = False"
| "fle x NaN = False"
| "fle (Finite a) (Finite b) = (a \<le> b)"
| "fle (Finite a) PosInf = True"
| "fle (Finite a) NegInf = False"
| "fle PosInf PosInf = True"
| "fle PosInf y = False"
| "fle NegInf y = True"

text \<open>
  Float arithmetic rounds, overflows and (for \<^verbatim>\<open>sum\<close>) depends on the interpreter's
  summation algorithm. The operations \<^verbatim>\<open>compare_image_histograms\<close> uses are therefore
  parameters of the model: \<^verbatim>\<open>a - b\<close>, \<^verbatim>\<open>x ** 2\<close> (raises \<^verbatim>\<open>OverflowError\<close> when the square
  of a finite float is out of range), \<^verbatim>\<open>sum(...)\<close>, \<^verbatim>\<open>x / n\<close> for a non-zero integer
  \<open>n\<close>, and \<^verbatim>\<open>math.sqrt\<close> (raises \<^verbatim>\<open>ValueError\<close> on a negative number). Whatever is
  proved for all such operations holds for those of the interpreter.
\<close>

record float_ops =
  fsub :: "pyfloat \<Rightarrow> pyfloat \<Rightarrow> pyfloat"
  fsquare :: "pyfloat \<Rightarrow> exn + pyfloat"
  fsum :: "pyfloat list \<Rightarrow> pyfloat"
  fdiv :: "pyfloat \<Rightarrow> nat \<Rightarrow> pyfloat"
  fsqrt :: "pyfloat \<Rightarrow> exn + pyfloat"

subsection \<open>Candidate pairs\<close>

text \<open>
  \<^verbatim>\<open>files.index(file)\<close>: the position of the first element equal to \<open>file\<close>. Python
  raises \<^verbatim>\<open>ValueError\<close> when there is none; \<^verbatim>\<open>similar_images\<close> only asks for elements
  it draws from \<open>files\<close> itself, so that branch is never reached there (lemma
  \<open>index_less\<close>), and the model returns the length of the list for it.
\<close>

fun index :: "'a list \<Rightarrow> 'a \<Rightarrow> nat" where
  "index [] x = 0"
| "index (y # ys) x = (if y = x then 0 else Suc (index ys x))"

text \<open>
  The two \<^verbatim>\<open>for\<close> clauses shared by both branches of \<^verbatim>\<open>similar_images\<close>:
  \<^verbatim>\<open>for file in files for other_file in files[files.index(file) + 1:]\<close>.
  Parallel mode materialises this list as \<^verbatim>\<open>candidates\<close>.
\<close>

definition candidates :: "string list \<Rightarrow> (string \<times> string) list" where
  "candidates files =
     [(file, other_file). file \<leftarrow> files, other_file \<leftarrow> drop (index files file + 1) files]"

subsection \<open>Comparators and how they are called\<close>

text \<open>
  A comparator is a Python function of four parameters, annotated
  \<^verbatim>\<open>Callable[[str, str, float, float], bool]\<close>: the names of its third and fourth parameter
  and its body, a pure total function. \<^verbatim>\<open>compare_exactly\<close> and \<^verbatim>\<open>compare_histograms\<close>
  name them \<^verbatim>\<open>aspect_fuzziness\<close> and \<^verbatim>\<open>rms_error\<close>.
\<close>

record comparator =
  third_parameter :: string
  fourth_parameter :: string
  body :: "string \<Rightarrow> string \<Rightarrow> pyfloat \<Rightarrow> pyfloat \<Rightarrow> bool"

text \<open>
  Sequential mode calls \<^verbatim>\<open>compare_images(file, other_file, aspect_fuzziness, rms_error)\<close>:
  all four arguments by position.
\<close>

definition call_positional ::
  "comparator \<Rightarrow> string \<Rightarrow> string \<Rightarrow> pyfloat \<Rightarrow> pyfloat \<Rightarrow> bool" where
  "call_positional compare_images file other_file aspect_fuzziness rms_error =
     body compare_images file other_file aspect_fuzziness rms_error"

text \<open>
  Parallel mode calls
  \<^verbatim>\<open>partial(compare_images, aspect_fuzziness=aspect_fuzziness, rms_error=rms_error)\<close> on
  \<^verbatim>\<open>(file, other_file)\<close>: the two fuzziness values are bound by keyword. Python raises
  \<^verbatim>\<open>TypeError\<close> unless the third and fourth parameter carry these two names, and binds each
  value to the parameter of its name.
\<close>

definition call_keyword ::
  "comparator \<Rightarrow> string \<Rightarrow> string \<Rightarrow> pyfloat \<Rightarrow> pyfloat \<Rightarrow> exn + bool" where
  "call_keyword compare_images file other_file aspect_fuzziness rms_error =
     (if third_parameter compare_images = ''aspect_fuzziness'' \<and>
         fourth_parameter compare_images = ''rms_error''
      then Inr (body compare_images file other_file aspect_fuzziness rms_error)
      else if third_parameter compare_images = ''rms_error'' \<and>
         fourth_parameter compare_images = ''aspect_fuzziness''
      then Inr (body compare_images file other_file rms_error aspect_fuzziness)
      else Inl TypeError)"

subsection \<open>The worker pool\<close>

text \<open>
  \<^verbatim>\<open>multiprocessing.dummy.Pool\<close> is the standard library's thread pool. \<^verbatim>\<open>Pool._get_tasks\<close>
  cuts the iterable into consecutive batches of \<^verbatim>\<open>chunksize\<close> items and stops at the
  first empty batch.
\<close>

function get_tasks :: "nat \<Rightarrow> 'a list \<Rightarrow> 'a list list" where
  "get_tasks chunksize it =
     (if take chunksize it = [] then []
      else take chunksize it # get_tasks chunksize (drop chunksize it))"
  by pat_completeness auto
termination
  by (relation "measure (\<lambda>(chunksize, it). length it)") auto

text \<open>
  \<^verbatim>\<open>pool.starmap(func, iterable, chunksize)\<close>. \<^verbatim>\<open>MapResult\<close> starts from the list
  \<^verbatim>\<open>[None] * len(iterable)\<close>. For \<^verbatim>\<open>chunksize <= 0\<close>, and for an empty iterable, it is
  complete at once and that list is what \<^verbatim>\<open>starmap\<close> returns: no call is made. Otherwise
  every batch is mapped by one worker (\<^verbatim>\<open>func(*args)\<close> for each item), the results of
  batch \<open>i\<close> are stored at the slice \<^verbatim>\<open>[i*chunksize:(i+1)*chunksize]\<close>, and an exception
  raised by a call is raised again by \<^verbatim>\<open>starmap\<close>. \<open>func\<close> has no effects here, so the
  order in which the workers run does not show in the values; when several calls raise,
  the model reports the first in input order.
\<close>

definition starmap ::
  "('a \<Rightarrow> 'b \<Rightarrow> exn + 'r) \<Rightarrow> ('a \<times> 'b) list \<Rightarrow> int \<Rightarrow> exn + 'r option list" where
  "starmap func iterable chunksize =
     (if chunksize \<le> 0 \<or> iterable = [] then Inr (replicate (length iterable) None)
      else
        (case collect (concat (map (map (\<lambda>(a, b). func a b))
                                 (get_tasks (nat chunksize) iterable))) of
           Inl e \<Rightarrow> Inl e
         | Inr results \<Rightarrow> Inr (map Some results)))"

text \<open>
  \<^verbatim>\<open>pool_filter\<close>: \<^verbatim>\<open>[c for c, keep in zip(candidates, pool.starmap(...)) if keep]\<close>.
  \<^verbatim>\<open>None\<close> is falsy.
\<close>

definition pool_filter ::
  "(string \<times> string) list \<Rightarrow> comparator \<Rightarrow> pyfloat \<Rightarrow> pyfloat \<Rightarrow> int
     \<Rightarrow> exn + (string \<times> string) list" where
  "pool_filter cands compare_images aspect_fuzziness rms_error chunk_size =
     (case starmap
             (\<lambda>file other_file.
                call_keyword compare_images file other_file aspect_fuzziness rms_error)
             cands chunk_size of
        Inl e \<Rightarrow> Inl e
      | Inr results \<Rightarrow> Inr [c. (c, keep) \<leftarrow> zip cands results, keep = Some True])"

definition CHUNK_SIZE :: int where
  "CHUNK_SIZE = 25"

subsection \<open>The pairwise search\<close>

text \<open>
  \<^verbatim>\<open>similar_images\<close>. Sequential mode cannot raise with a pure comparator; parallel mode
  raises what \<^verbatim>\<open>pool_filter\<close> raises.
\<close>

definition similar_images ::
  "string list \<Rightarrow> comparator \<Rightarrow> pyfloat \<Rightarrow> pyfloat \<Rightarrow> bool \<Rightarrow> int
     \<Rightarrow> exn + (string \<times> string) list" where
  "similar_images files compare_images aspect_fuzziness rms_error parallel chunk_size =
     (if parallel then
        pool_filter (candidates files) compare_images aspect_fuzziness rms_error chunk_size
      else
        Inr [(file, other_file).
               file \<leftarrow> files,
               other_file \<leftarrow> drop (index files file + 1) files,
               call_positional compare_images file other_file aspect_fuzziness rms_error])"


subsection \<open>The attribute cache and the exact comparator\<close>

text \<open>
  What \<^verbatim>\<open>duplicate.py\<close> asks of the operating system and of \<^verbatim>\<open>hashlib\<close>:
  \<^verbatim>\<open>os.path.getsize(file)\<close>, \<^verbatim>\<open>open(file, 'rb').read()\<close> (both may raise) and
  \<^verbatim>\<open>md5(...).hexdigest()\<close>. They are parameters of the model.
\<close>

record os =
  getsize :: "string \<Rightarrow> exn + nat"
  read_bytes :: "string \<Rightarrow> exn + string"
  md5_hexdigest :: "string \<Rightarrow> string"

text \<open>
  The two \<^verbatim>\<open>@lru_cache(maxsize=None)\<close> tables, keyed by the path. A hit returns the
  stored value; a miss computes the value and stores it; a call that raises stores nothing.
\<close>

record cache =
  size_cache :: "string \<rightharpoonup> nat"
  hash_cache :: "string \<rightharpoonup> string"

definition get_size :: "os \<Rightarrow> cache \<Rightarrow> string \<Rightarrow> (exn + nat) \<times> cache" where
  "get_size env c file =
     (case size_cache c file of
        Some n \<Rightarrow> (Inr n, c)
      | None \<Rightarrow>
          (case getsize env file of
             Inl e \<Rightarrow> (Inl e, c)
           | Inr n \<Rightarrow> (Inr n, c\<lparr>size_cache := (size_cache c)(file \<mapsto> n)\<rparr>)))"

definition get_hash :: "os \<Rightarrow> cache \<Rightarrow> string \<Rightarrow> (exn + string) \<times> cache" where
  "get_hash env c file =
     (case hash_cache c file of
        Some h \<Rightarrow> (Inr h, c)
      | None \<Rightarrow>
          (case read_bytes env file of
             Inl e \<Rightarrow> (Inl e, c)
           | Inr content \<Rightarrow>
               (Inr (md5_hexdigest env content),
                c\<lparr>hash_cache := (hash_cache c)(file \<mapsto> md5_hexdigest env content)\<rparr>)))"

text \<open>
  \<^verbatim>\<open>get_size(other_file) == get_size(file) and get_hash(file) == get_hash(other_file)\<close>,
  operands evaluated left to right, \<^verbatim>\<open>and\<close> short-circuiting. The two fuzziness
  arguments are not used.
\<close>

definition compare_exactly ::
  "os \<Rightarrow> cache \<Rightarrow> string \<Rightarrow> string \<Rightarrow> pyfloat \<Rightarrow> pyfloat \<Rightarrow> (exn + bool) \<times> cache" where
  "compare_exactly env c file other_file aspect_fuzziness rms_error =
     (case get_size env c other_file of
        (Inl e, c1) \<Rightarrow> (Inl e, c1)
      | (Inr other_size, c1) \<Rightarrow>
          (case get_size env c1 file of
             (Inl e, c2) \<Rightarrow> (Inl e, c2)
           | (Inr file_size, c2) \<Rightarrow>
               if other_size \<noteq> file_size then (Inr False, c2)
               else
                 (case get_hash env c2 file of
                    (Inl e, c3) \<Rightarrow> (Inl e, c3)
                  | (Inr file_hash, c3) \<Rightarrow>
                      (case get_hash env c3 other_file of
                         (Inl e, c4) \<Rightarrow> (Inl e, c4)
                       | (Inr other_hash, c4) \<Rightarrow> (Inr (file_hash = other_hash), c4)))))"

text \<open>
  The two tables are empty when the process starts, and only \<^verbatim>\<open>compare_exactly\<close> fills
  them. \<open>cache_after env earlier\<close> is their state after the earlier comparisons, made in
  the order of the list on an unchanged file system.
\<close>

definition empty_cache :: cache where
  "empty_cache = \<lparr>size_cache = Map.empty, hash_cache = Map.empty\<rparr>"

definition cache_after :: "os \<Rightarrow> (string \<times> string \<times> pyfloat \<times> pyfloat) list \<Rightarrow> cache" where
  "cache_after env earlier =
     foldl (\<lambda>c (file, other_file, aspect_fuzziness, rms_error).
              snd (compare_exactly env c file other_file aspect_fuzziness rms_error))
       empty_cache earlier"

text \<open>
  The invariant of the tables on an unchanged file system: every stored size is the size
  the operating system reports, every stored digest is the digest of the file's content.
\<close>

definition coherent :: "os \<Rightarrow> cache \<Rightarrow> bool" where
  "coherent env c \<longleftrightarrow>
     (\<forall>file n. size_cache c file = Some n \<longrightarrow> getsize env file = Inr n) \<and>
     (\<forall>file h. hash_cache c file = Some h \<longrightarrow>
        (\<exists>content. read_bytes env file = Inr content \<and> h = md5_hexdigest env content))"

text \<open>
  The result of \<^verbatim>\<open>compare_exactly\<close> written as a function of the four lookups alone,
  without the cache; lemma \<open>compare_exactly_value\<close> shows that the code computes it.
\<close>

definition exact_outcome ::
  "exn + nat \<Rightarrow> exn + nat \<Rightarrow> exn + string \<Rightarrow> exn + string \<Rightarrow> exn + bool" where
  "exact_outcome other_size file_size file_hash other_hash =
     (case other_size of
        Inl e \<Rightarrow> Inl e
      | Inr so \<Rightarrow>
          (case file_size of
             Inl e \<Rightarrow> Inl e
           | Inr sf \<Rightarrow>
               if so \<noteq> sf then Inr False
               else
                 (case file_hash of
                    Inl e \<Rightarrow> Inl e
                  | Inr hf \<Rightarrow>
                      (case other_hash of
                         Inl e \<Rightarrow> Inl e
                       | Inr ho \<Rightarrow> Inr (hf = ho)))))"

subsection \<open>The histogram comparator\<close>

text \<open>
  Modelled from the spec: the class \<^verbatim>\<open>ImageWrapper\<close> of the module \<^verbatim>\<open>image_wrapper\<close>,
  which is not among the sources. The spec's Image Representation is "a decoded image
  exposing width, height, and a fixed-length numeric histogram"; \<^verbatim>\<open>get_histogram()\<close> is
  the field \<open>histogram\<close>, a \<^verbatim>\<open>List[float]\<close>.
\<close>

record image_wrapper =
  width :: nat
  height :: nat
  histogram :: "pyfloat list"

text \<open>
  Modelled from the spec: \<^verbatim>\<open>aspects_roughly_equal\<close> of the module \<^verbatim>\<open>image_wrapper\<close>.
  "Compute each image's width/height ratio; if the two ratios differ by more than
  aspectFuzziness (relative difference), return false." The spec does not give the formula
  of the relative difference, so it is the parameter \<open>rel_diff\<close>.
\<close>

definition aspect :: "image_wrapper \<Rightarrow> real" where
  "aspect img = real (width img) / real (height img)"

definition aspects_roughly_equal_spec ::
  "(real \<Rightarrow> real \<Rightarrow> pyfloat) \<Rightarrow> image_wrapper \<Rightarrow> image_wrapper \<Rightarrow> pyfloat \<Rightarrow> bool" where
  "aspects_roughly_equal_spec rel_diff img other_img aspect_fuzziness =
     (\<not> fless aspect_fuzziness (rel_diff (aspect img) (aspect other_img)))"

text \<open>
  \<^verbatim>\<open>get_deviations\<close>: \<^verbatim>\<open>map(lambda a, b: (a - b) ** 2, hist, other_hist)\<close>, which stops
  at the end of the shorter histogram. The iterator is consumed by \<^verbatim>\<open>sum\<close>, bucket after
  bucket, so the first square that raises ends the computation.
\<close>

definition get_deviations :: "float_ops \<Rightarrow> pyfloat list \<Rightarrow> pyfloat list \<Rightarrow> exn + pyfloat list" where
  "get_deviations ops hist other_hist =
     collect (map2 (\<lambda>a b. fsquare ops (fsub ops a b)) hist other_hist)"

text \<open>
  \<^verbatim>\<open>compare_image_histograms\<close>. The imported \<^verbatim>\<open>aspects_roughly_equal\<close> is the argument
  after the float operations; \<open>img\<close> and \<open>other_img\<close> are the source's \<^verbatim>\<open>image\<close> and
  \<^verbatim>\<open>other_image\<close>. \<^verbatim>\<open>sum(deviations) / len(image.get_histogram())\<close> raises
  \<^verbatim>\<open>ZeroDivisionError\<close> on a histogram without buckets.
\<close>

definition compare_image_histograms ::
  "float_ops \<Rightarrow> (image_wrapper \<Rightarrow> image_wrapper \<Rightarrow> pyfloat \<Rightarrow> bool) \<Rightarrow>
     image_wrapper \<Rightarrow> image_wrapper \<Rightarrow> pyfloat \<Rightarrow> pyfloat \<Rightarrow> exn + bool" where
  "compare_image_histograms ops aspects_roughly_equal img other_img aspect_fuzziness rms_error =
     (if \<not> aspects_roughly_equal img other_img aspect_fuzziness then Inr False
      else
        (case get_deviations ops (histogram img) (histogram other_img) of
           Inl e \<Rightarrow> Inl e
         | Inr deviations \<Rightarrow>
             if length (histogram img) = 0 then Inl ZeroDivisionError
             else
               (case fsqrt ops (fdiv ops (fsum ops deviations) (length (histogram img))) of
                  Inl e \<Rightarrow> Inl e
                | Inr rms \<Rightarrow> Inr (fless rms rms_error))))"

text \<open>
  \<^verbatim>\<open>compare_histograms\<close>. \<^verbatim>\<open>ImageWrapper.create\<close> (decoding a file, which may raise) is
  the parameter \<open>create\<close>; the arguments of the call are evaluated left to right. The
  handler is \<^verbatim>\<open>except (IOError, TypeError): return False\<close>; any other exception leaves
  the function.
\<close>

definition compare_histograms ::
  "float_ops \<Rightarrow> (string \<Rightarrow> exn + image_wrapper) \<Rightarrow>
     (image_wrapper \<Rightarrow> image_wrapper \<Rightarrow> pyfloat \<Rightarrow> bool) \<Rightarrow>
     string \<Rightarrow> string \<Rightarrow> pyfloat \<Rightarrow> pyfloat \<Rightarrow> exn + bool" where
  "compare_histograms ops create aspects_roughly_equal file other_file aspect_fuzziness rms_error =
     (case
        (case create file of
           Inl e \<Rightarrow> Inl e
         | Inr img \<Rightarrow>
             (case create other_file of
                Inl e \<Rightarrow> Inl e
              | Inr other_img \<Rightarrow>
                  compare_image_histograms ops aspects_roughly_equal img other_img
                    aspect_fuzziness rms_error))
      of
        Inl e \<Rightarrow> if e = IOError \<or> e = TypeError then Inr False else Inl e
      | Inr keep \<Rightarrow> Inr keep)"

subsection \<open>Example collaborators\<close>

text \<open>
  Concrete stand-ins used where a property is evaluated at an explicit input: a decoder
  that raises \<^verbatim>\<open>ValueError\<close> on every file; an aspect check that accepts every pair; the
  absolute difference as the measure of the aspect check; float operations that are exact
  on finite numbers (on the small integers of the examples double arithmetic is exact
  too); a comparator that accepts every pair, under the parameter names of the program's
  comparators and under other names.
\<close>

definition decode_raising_ValueError :: "string \<Rightarrow> exn + image_wrapper" where
  "decode_raising_ValueError file = Inl ValueError"

definition gate_open :: "image_wrapper \<Rightarrow> image_wrapper \<Rightarrow> pyfloat \<Rightarrow> bool" where
  "gate_open img other_img aspect_fuzziness = True"

definition absolute_difference :: "real \<Rightarrow> real \<Rightarrow> pyfloat" where
  "absolute_difference a b = Finite \<bar>a - b\<bar>"

fun exact_sub :: "pyfloat \<Rightarrow> pyfloat \<Rightarrow> pyfloat" where
  "exact_sub (Finite a) (Finite b) = Finite (a - b)"
| "exact_sub x y = NaN"

fun exact_add :: "pyfloat \<Rightarrow> pyfloat \<Rightarrow> pyfloat" where
  "exact_add (Finite a) (Finite b) = Finite (a + b)"
| "exact_add x y = NaN"

fun exact_square :: "pyfloat \<Rightarrow> exn + pyfloat" where
  "exact_square (Finite a) = Inr (Finite (a * a))"
| "exact_square x = Inr NaN"

fun exact_div :: "pyfloat \<Rightarrow> nat \<Rightarrow> pyfloat" where
  "exact_div (Finite a) n = Finite (a / real n)"
| "exact_div x n = NaN"

fun exact_sqrt :: "pyfloat \<Rightarrow> exn + pyfloat" where
  "exact_sqrt (Finite a) = (if a < 0 then Inl ValueError else Inr (Finite (sqrt a)))"
| "exact_sqrt x = Inr NaN"

definition exact_ops :: float_ops where
  "exact_ops =
     \<lparr>fsub = exact_sub, fsquare = exact_square, fsum = foldl exact_add (Finite 0),
      fdiv = exact_div, fsqrt = exact_sqrt\<rparr>"

definition accept_all :: comparator where
  "accept_all =
     \<lparr>third_parameter = ''aspect_fuzziness'', fourth_parameter = ''rms_error'',
      body = (\<lambda>file other_file aspect_fuzziness rms_error. True)\<rparr>"


section \<open>Properties of the pair generation\<close>

lemma index_less: "x \<in> set xs \<Longrightarrow> index xs x < length xs"
  by (induction xs) auto

lemma nth_index: "x \<in> set xs \<Longrightarrow> xs ! index xs x = x"
  by (induction xs) auto


lemma candidates_Nil: "candidates [] = []"
  by (simp add: candidates_def)

lemma candidates_Cons:
  assumes "x \<notin> set xs"
  shows "candidates (x # xs) = map (Pair x) xs @ candidates xs"
proof -
  have "concat (map (\<lambda>file. map (Pair file) (drop (index (x # xs) file + 1) (x # xs))) xs)
      = concat (map (\<lambda>file. map (Pair file) (drop (index xs file + 1) xs)) xs)"
    using assms by (intro arg_cong [where f = concat] map_cong) auto
  then show ?thesis
    by (simp add: candidates_def)
qed

lemma length_candidates:
  "distinct files \<Longrightarrow> length (candidates files) = length files * (length files - 1) div 2"
proof (induction files)
  case Nil
  then show ?case by (simp add: candidates_Nil)
next
  case (Cons x xs)
  then show ?case
    by (cases xs) (auto simp: candidates_Cons)
qed

lemma set_candidates_subset: "set (candidates files) \<subseteq> set files \<times> set files"
  by (auto simp: candidates_def dest: in_set_dropD)

lemma distinct_candidates: "distinct files \<Longrightarrow> distinct (candidates files)"
proof (induction files)
  case Nil
  then show ?case by (simp add: candidates_Nil)
next
  case (Cons x xs)
  have "inj_on (Pair x) (set xs)" by (simp add: inj_on_def)
  with Cons show ?case
    using set_candidates_subset [of xs]
    by (auto simp: candidates_Cons distinct_map)
qed

lemma in_set_candidates:
  "(a, b) \<in> set (candidates files) \<longleftrightarrow>
     a \<in> set files \<and> b \<in> set (drop (index files a + 1) files)"
  by (auto simp: candidates_def)

lemma in_set_drop_index:
  "distinct xs \<Longrightarrow> b \<in> set (drop k xs) \<longleftrightarrow> b \<in> set xs \<and> k \<le> index xs b"
proof (induction xs arbitrary: k)
  case Nil
  then show ?case by simp
next
  case (Cons x xs)
  then show ?case
    by (cases k) auto
qed

lemma in_set_candidates_distinct:
  "distinct files \<Longrightarrow>
     (a, b) \<in> set (candidates files) \<longleftrightarrow>
       a \<in> set files \<and> b \<in> set files \<and> index files a < index files b"
  by (auto simp: in_set_candidates in_set_drop_index)

lemma index_inj: "a \<in> set xs \<Longrightarrow> index xs a = index xs b \<Longrightarrow> a = b"
  by (induction xs) (auto split: if_splits)

lemma count_list_distinct:
  "distinct xs \<Longrightarrow> count_list xs x = (if x \<in> set xs then 1 else 0)"
  by (induction xs) auto

lemma candidates_no_self_pair: "distinct files \<Longrightarrow> (a, a) \<notin> set (candidates files)"
  by (simp add: in_set_candidates_distinct)

lemma candidates_unordered_once:
  assumes "distinct files" "a \<in> set files" "b \<in> set files" "a \<noteq> b"
  shows "count_list (candidates files) (a, b) + count_list (candidates files) (b, a) = 1"
proof -
  have "index files a \<noteq> index files b"
    using assms index_inj by metis
  then have "index files a < index files b \<or> index files b < index files a"
    by arith
  then show ?thesis
    using assms
    by (auto simp: count_list_distinct distinct_candidates in_set_candidates_distinct)
qed


lemma comprehension_filter:
  "concat (map (\<lambda>x. if P x then [f x] else []) xs) = map f (filter P xs)"
  by (induction xs) auto








lemma sequential_filter:
  "similar_images files compare_images aspect_fuzziness rms_error False chunk_size =
     Inr (filter (\<lambda>(file, other_file). body compare_images file other_file aspect_fuzziness rms_error)
       (candidates files))"
  by (simp add: similar_images_def call_positional_def candidates_def filter_concat comp_def
      comprehension_filter filter_map)





text \<open>
  Claim C1. For a list of \<open>N\<close> pairwise distinct paths the two \<^verbatim>\<open>for\<close> clauses of
  \<^verbatim>\<open>similar_images\<close> draw exactly \<open>N (N - 1) / 2\<close> pairs; of two different files
  exactly one of the two orders is drawn, exactly once; no pair holds a file twice; every
  pair is made of files of the list. Parallel mode filters exactly this list through the
  pool, sequential mode keeps exactly the pairs of this list that the comparator accepts.
\<close>

theorem candidate_pairs_of_distinct_files:
  assumes "distinct files"
  shows "length (candidates files) = length files * (length files - 1) div 2 \<and>
         (\<forall>a \<in> set files. \<forall>b \<in> set files. a \<noteq> b \<longrightarrow>
            count_list (candidates files) (a, b) + count_list (candidates files) (b, a) = 1) \<and>
         (\<forall>a. (a, a) \<notin> set (candidates files)) \<and>
         set (candidates files) \<subseteq> set files \<times> set files \<and>
         similar_images files compare_images aspect_fuzziness rms_error True chunk_size =
           pool_filter (candidates files) compare_images aspect_fuzziness rms_error chunk_size \<and>
         similar_images files compare_images aspect_fuzziness rms_error False chunk_size =
           Inr (filter (\<lambda>(file, other_file).
                          body compare_images file other_file aspect_fuzziness rms_error)
                  (candidates files))"
proof -
  have "length (candidates files) = length files * (length files - 1) div 2"
    using assms by (rule length_candidates)
  moreover have "\<forall>a \<in> set files. \<forall>b \<in> set files. a \<noteq> b \<longrightarrow>
      count_list (candidates files) (a, b) + count_list (candidates files) (b, a) = 1"
    using assms by (blast intro: candidates_unordered_once)
  moreover have "\<forall>a. (a, a) \<notin> set (candidates files)"
    using assms by (simp add: candidates_no_self_pair)
  moreover have "similar_images files compare_images aspect_fuzziness rms_error True chunk_size =
      pool_filter (candidates files) compare_images aspect_fuzziness rms_error chunk_size"
    by (simp add: similar_images_def)
  ultimately show ?thesis
    using set_candidates_subset [of files] sequential_filter by blast
qed

text \<open>The three files of the spec's scenario: three pairs, none of a file with itself.\<close>

theorem candidate_pairs_of_distinct_files_witness:
  "distinct [''a.jpg'', ''b.jpg'', ''c.jpg''] \<and>
   length (candidates [''a.jpg'', ''b.jpg'', ''c.jpg'']) = 3 \<and>
   count_list (candidates [''a.jpg'', ''b.jpg'', ''c.jpg'']) (''a.jpg'', ''c.jpg'') +
     count_list (candidates [''a.jpg'', ''b.jpg'', ''c.jpg'']) (''c.jpg'', ''a.jpg'') = 1 \<and>
   (''b.jpg'', ''b.jpg'') \<notin> set (candidates [''a.jpg'', ''b.jpg'', ''c.jpg''])"
proof -
  have d: "distinct [''a.jpg'', ''b.jpg'', ''c.jpg'']"
    by simp
  show ?thesis
    using d candidate_pairs_of_distinct_files [OF d, of accept_all NaN NaN CHUNK_SIZE]
    by simp
qed










section \<open>Properties of the exact comparator\<close>

lemma get_size_after_get_size:
  "fst (get_size env (snd (get_size env c k)) file) = fst (get_size env c file)"
  by (auto simp: get_size_def split: option.splits sum.splits)

lemma get_hash_after_get_size:
  "fst (get_hash env (snd (get_size env c k)) file) = fst (get_hash env c file)"
  by (auto simp: get_size_def get_hash_def split: option.splits sum.splits)

lemma get_hash_after_get_hash:
  "fst (get_hash env (snd (get_hash env c k)) file) = fst (get_hash env c file)"
  by (auto simp: get_hash_def split: option.splits sum.splits)

lemma get_size_after_get_hash:
  "fst (get_size env (snd (get_hash env c k)) file) = fst (get_size env c file)"
  by (auto simp: get_size_def get_hash_def split: option.splits sum.splits)

lemma compare_exactly_value:
  "fst (compare_exactly env c file other_file aspect_fuzziness rms_error) =
     exact_outcome (fst (get_size env c other_file)) (fst (get_size env c file))
       (fst (get_hash env c file)) (fst (get_hash env c other_file))"
proof -
  obtain r1 c1 where g1: "get_size env c other_file = (r1, c1)" by (cases "get_size env c other_file")
  obtain r2 c2 where g2: "get_size env c1 file = (r2, c2)" by (cases "get_size env c1 file")
  obtain r3 c3 where g3: "get_hash env c2 file = (r3, c3)" by (cases "get_hash env c2 file")
  obtain r4 c4 where g4: "get_hash env c3 other_file = (r4, c4)" by (cases "get_hash env c3 other_file")
  have c1: "c1 = snd (get_size env c other_file)" using g1 by simp
  have c2: "c2 = snd (get_size env c1 file)" using g2 by simp
  have c3: "c3 = snd (get_hash env c2 file)" using g3 by simp
  have r1: "fst (get_size env c other_file) = r1" using g1 by simp
  have r2: "fst (get_size env c file) = r2"
    using g2 get_size_after_get_size [of env c other_file "file"] by (simp add: c1)
  have r3: "fst (get_hash env c file) = r3"
    using g3 get_hash_after_get_size [of env c1 "file" "file"]
      get_hash_after_get_size [of env c other_file "file"] by (simp add: c1 c2)
  have r4: "fst (get_hash env c other_file) = r4"
    using g4 get_hash_after_get_hash [of env c2 "file" other_file]
      get_hash_after_get_size [of env c1 "file" other_file]
      get_hash_after_get_size [of env c other_file other_file] by (simp add: c1 c2 c3)
  show ?thesis
    unfolding r1 r2 r3 r4
    by (simp add: compare_exactly_def exact_outcome_def g1 g2 g3 g4 split: sum.splits)
qed

lemma lookups_after_compare_exactly:
  "fst (get_size env (snd (compare_exactly env c a b f r)) k) = fst (get_size env c k) \<and>
   fst (get_hash env (snd (compare_exactly env c a b f r)) k) = fst (get_hash env c k)"
proof -
  obtain r1 c1 where g1: "get_size env c b = (r1, c1)" by (cases "get_size env c b")
  obtain r2 c2 where g2: "get_size env c1 a = (r2, c2)" by (cases "get_size env c1 a")
  obtain r3 c3 where g3: "get_hash env c2 a = (r3, c3)" by (cases "get_hash env c2 a")
  obtain r4 c4 where g4: "get_hash env c3 b = (r4, c4)" by (cases "get_hash env c3 b")
  have c1: "c1 = snd (get_size env c b)" using g1 by simp
  have c2: "c2 = snd (get_size env c1 a)" using g2 by simp
  have c3: "c3 = snd (get_hash env c2 a)" using g3 by simp
  have c4: "c4 = snd (get_hash env c3 b)" using g4 by simp
  have s1: "fst (get_size env c1 k) = fst (get_size env c k)"
    and h1: "fst (get_hash env c1 k) = fst (get_hash env c k)"
    unfolding c1 by (rule get_size_after_get_size, rule get_hash_after_get_size)
  have s2: "fst (get_size env c2 k) = fst (get_size env c k)"
    and h2: "fst (get_hash env c2 k) = fst (get_hash env c k)"
    unfolding c2 by (simp_all add: get_size_after_get_size get_hash_after_get_size s1 h1)
  have s3: "fst (get_size env c3 k) = fst (get_size env c k)"
    and h3: "fst (get_hash env c3 k) = fst (get_hash env c k)"
    unfolding c3 by (simp_all add: get_size_after_get_hash get_hash_after_get_hash s2 h2)
  have s4: "fst (get_size env c4 k) = fst (get_size env c k)"
    and h4: "fst (get_hash env c4 k) = fst (get_hash env c k)"
    unfolding c4 by (simp_all add: get_size_after_get_hash get_hash_after_get_hash s3 h3)
  have "snd (compare_exactly env c a b f r) \<in> {c1, c2, c3, c4}"
    by (simp add: compare_exactly_def g1 g2 g3 g4 split: sum.splits)
  then show ?thesis
    using s1 h1 s2 h2 s3 h3 s4 h4 by auto
qed

lemma returned_exact_outcome_commute:
  "returned (exact_outcome sb sa ha hb) = returned (exact_outcome sa sb hb ha)"
  by (cases sa; cases sb; cases ha; cases hb) (auto simp: exact_outcome_def)

lemma coherent_empty: "coherent env empty_cache"
  by (simp add: coherent_def empty_cache_def)

lemma coherent_get_size: "coherent env c \<Longrightarrow> coherent env (snd (get_size env c k))"
  by (auto simp: coherent_def get_size_def split: option.splits sum.splits)

lemma coherent_get_hash: "coherent env c \<Longrightarrow> coherent env (snd (get_hash env c k))"
  by (auto simp: coherent_def get_hash_def split: option.splits sum.splits)

lemma coherent_compare_exactly:
  assumes "coherent env c"
  shows "coherent env (snd (compare_exactly env c a b f r))"
proof -
  obtain r1 c1 where g1: "get_size env c b = (r1, c1)" by (cases "get_size env c b")
  obtain r2 c2 where g2: "get_size env c1 a = (r2, c2)" by (cases "get_size env c1 a")
  obtain r3 c3 where g3: "get_hash env c2 a = (r3, c3)" by (cases "get_hash env c2 a")
  obtain r4 c4 where g4: "get_hash env c3 b = (r4, c4)" by (cases "get_hash env c3 b")
  have k1: "coherent env c1"
    using coherent_get_size [OF assms, of b] g1 by simp
  have k2: "coherent env c2"
    using coherent_get_size [OF k1, of a] g2 by simp
  have k3: "coherent env c3"
    using coherent_get_hash [OF k2, of a] g3 by simp
  have k4: "coherent env c4"
    using coherent_get_hash [OF k3, of b] g4 by simp
  have "snd (compare_exactly env c a b f r) \<in> {c1, c2, c3, c4}"
    by (simp add: compare_exactly_def g1 g2 g3 g4 split: sum.splits)
  then show ?thesis
    using k1 k2 k3 k4 by auto
qed

lemma coherent_foldl:
  "coherent env c \<Longrightarrow>
     coherent env
       (foldl (\<lambda>c (file, other_file, aspect_fuzziness, rms_error).
                 snd (compare_exactly env c file other_file aspect_fuzziness rms_error))
          c earlier)"
proof (induction earlier arbitrary: c)
  case Nil
  then show ?case by simp
next
  case (Cons call earlier)
  obtain a b f r where call: "call = (a, b, f, r)"
    by (cases call)
  show ?case
    using Cons.IH [OF coherent_compare_exactly [OF Cons.prems, of a b f r]]
    by (simp add: call)
qed

lemma coherent_cache_after: "coherent env (cache_after env earlier)"
  unfolding cache_after_def by (rule coherent_foldl [OF coherent_empty])

lemma coherent_get_size_value:
  "coherent env c \<Longrightarrow> fst (get_size env c k) = getsize env k"
  by (auto simp: coherent_def get_size_def split: option.splits sum.splits)

lemma coherent_get_hash_value:
  assumes "coherent env c" and "read_bytes env k = Inr content"
  shows "fst (get_hash env c k) = Inr (md5_hexdigest env content)"
proof (cases "hash_cache c k")
  case None
  then show ?thesis
    using assms(2) by (simp add: get_hash_def)
next
  case (Some h)
  then obtain content' where "read_bytes env k = Inr content'" "h = md5_hexdigest env content'"
    using assms(1) unfolding coherent_def by blast
  then show ?thesis
    using Some assms(2) by (simp add: get_hash_def)
qed

text \<open>
  Claim C3. Whatever comparisons were made before on the unchanged file system: when the
  operating system reports the sizes of both files and the contents of both can be read,
  \<^verbatim>\<open>compare_exactly\<close> returns true if and only if the two byte sizes are equal and the
  MD5 digests of the two contents are equal.
\<close>

theorem compare_exactly_iff_size_and_hash:
  assumes "getsize env A = Inr size_A"
    and "getsize env B = Inr size_B"
    and "read_bytes env A = Inr content_A"
    and "read_bytes env B = Inr content_B"
  shows "fst (compare_exactly env (cache_after env earlier) A B aspect_fuzziness rms_error) =
           Inr (size_A = size_B \<and>
                md5_hexdigest env content_A = md5_hexdigest env content_B)"
proof -
  let ?c = "cache_after env earlier"
  have k: "coherent env ?c"
    by (rule coherent_cache_after)
  have "fst (get_size env ?c A) = Inr size_A" "fst (get_size env ?c B) = Inr size_B"
    using assms(1,2) by (simp_all add: coherent_get_size_value [OF k])
  moreover have "fst (get_hash env ?c A) = Inr (md5_hexdigest env content_A)"
    "fst (get_hash env ?c B) = Inr (md5_hexdigest env content_B)"
    using assms(3,4) by (simp_all add: coherent_get_hash_value [OF k])
  ultimately show ?thesis
    by (auto simp: compare_exactly_value exact_outcome_def)
qed

text \<open>
  After a first comparison has filled the tables: two files of equal size and content
  compare true, two files of equal size and different content compare false.
\<close>

theorem compare_exactly_iff_size_and_hash_witness:
  "fst (compare_exactly
          \<lparr>getsize = (\<lambda>file. Inr (length file)),
           read_bytes = (\<lambda>file. if file = ''c.jpg'' then Inr ''other bytes'' else Inr ''same bytes''),
           md5_hexdigest = (\<lambda>content. content)\<rparr>
          (cache_after
             \<lparr>getsize = (\<lambda>file. Inr (length file)),
              read_bytes = (\<lambda>file. if file = ''c.jpg'' then Inr ''other bytes'' else Inr ''same bytes''),
              md5_hexdigest = (\<lambda>content. content)\<rparr>
             [(''a.jpg'', ''c.jpg'', Finite 0.05, Finite 0.001)])
          ''a.jpg'' ''b.jpg'' (Finite 0.05) (Finite 0.001)) = Inr True \<and>
   fst (compare_exactly
          \<lparr>getsize = (\<lambda>file. Inr (length file)),
           read_bytes = (\<lambda>file. if file = ''c.jpg'' then Inr ''other bytes'' else Inr ''same bytes''),
           md5_hexdigest = (\<lambda>content. content)\<rparr>
          (cache_after
             \<lparr>getsize = (\<lambda>file. Inr (length file)),
              read_bytes = (\<lambda>file. if file = ''c.jpg'' then Inr ''other bytes'' else Inr ''same bytes''),
              md5_hexdigest = (\<lambda>content. content)\<rparr>
             [(''a.jpg'', ''c.jpg'', Finite 0.05, Finite 0.001)])
          ''a.jpg'' ''c.jpg'' (Finite 0.05) (Finite 0.001)) = Inr False"
  using compare_exactly_iff_size_and_hash
    [of "\<lparr>getsize = (\<lambda>file. Inr (length file)),
           read_bytes = (\<lambda>file. if file = ''c.jpg'' then Inr ''other bytes'' else Inr ''same bytes''),
           md5_hexdigest = (\<lambda>content. content)\<rparr>"
        "''a.jpg''" 5 "''b.jpg''" 5 "''same bytes''" "''same bytes''"
        "[(''a.jpg'', ''c.jpg'', Finite 0.05, Finite 0.001)]" "Finite 0.05" "Finite 0.001"]
    compare_exactly_iff_size_and_hash
    [of "\<lparr>getsize = (\<lambda>file. Inr (length file)),
           read_bytes = (\<lambda>file. if file = ''c.jpg'' then Inr ''other bytes'' else Inr ''same bytes''),
           md5_hexdigest = (\<lambda>content. content)\<rparr>"
        "''a.jpg''" 5 "''c.jpg''" 5 "''same bytes''" "''other bytes''"
        "[(''a.jpg'', ''c.jpg'', Finite 0.05, Finite 0.001)]" "Finite 0.05" "Finite 0.001"]
  by simp

text \<open>
  Claim C8. \<^verbatim>\<open>compare_exactly\<close> is symmetric: both argument orders return the same
  boolean, or both raise (not always the same exception, since the lookups run in a
  different order). This holds for two calls from the same cache and for the second call
  made after the first on the cache the first has left.
\<close>

theorem compare_exactly_symmetric:
  "returned (fst (compare_exactly env c A B aspect_fuzziness rms_error)) =
     returned (fst (compare_exactly env c B A aspect_fuzziness rms_error)) \<and>
   returned (fst (compare_exactly env
       (snd (compare_exactly env c A B aspect_fuzziness rms_error)) B A
       aspect_fuzziness rms_error)) =
     returned (fst (compare_exactly env c A B aspect_fuzziness rms_error))"
  by (simp add: compare_exactly_value lookups_after_compare_exactly
      returned_exact_outcome_commute)

text \<open>
  Claim C10. The result of \<^verbatim>\<open>compare_exactly\<close>, and the cache it leaves, do not depend
  on \<^verbatim>\<open>aspect_fuzziness\<close> and \<^verbatim>\<open>rms_error\<close>.
\<close>

theorem compare_exactly_ignores_fuzziness:
  "compare_exactly env c A B aspect_fuzziness rms_error =
     compare_exactly env c A B aspect_fuzziness' rms_error'"
  by (simp add: compare_exactly_def)

section \<open>Properties of the histogram comparator\<close>

lemma map2_nth:
  assumes "length xs = length ys"
  shows "map2 f xs ys = map (\<lambda>k. f (xs ! k) (ys ! k)) [0..<length xs]"
  using assms by (intro nth_equalityI) auto

lemma aspect_histogram_update: "aspect (img\<lparr>histogram := h\<rparr>) = aspect img"
  by (simp add: aspect_def)

lemma fless_fle_trans: "fless x t \<Longrightarrow> fle t t' \<Longrightarrow> fless x t'"
  by (cases x; cases t; cases t') auto

text \<open>
  Claim C5, as stated for all histograms of equal length, fails on two histograms without
  buckets: the aspect check passes and the division by the number of buckets raises
  \<^verbatim>\<open>ZeroDivisionError\<close>, so the comparison returns neither true nor false.
\<close>

theorem zero_buckets_raise:
  "compare_image_histograms exact_ops (aspects_roughly_equal_spec absolute_difference)
     \<lparr>width = 100, height = 100, histogram = []\<rparr>
     \<lparr>width = 100, height = 100, histogram = []\<rparr> (Finite 0.05) (Finite 0.001) =
     Inl ZeroDivisionError"
  by (simp add: compare_image_histograms_def aspects_roughly_equal_spec_def
      absolute_difference_def get_deviations_def)

text \<open>
  Claim C5, amended. For two decoded images whose histograms have the same number of
  buckets, at least one: if the aspect ratios differ by more than \<^verbatim>\<open>aspect_fuzziness\<close> the
  comparison returns false, whatever the histograms are; otherwise it raises what a
  square or the square root raises, and else returns true if and only if the float that
  the interpreter's arithmetic computes as the square root of (the sum of the squared
  bucket differences, over all bucket indices, divided by the number of buckets) is
  strictly less than \<^verbatim>\<open>rms_error\<close>. The aspect check is the one modelled from the spec.
\<close>

theorem histogram_comparison_formula:
  assumes "length (histogram img) = length (histogram other_img)"
    and "histogram img \<noteq> []"
  shows "compare_image_histograms ops (aspects_roughly_equal_spec rel_diff) img other_img
           aspect_fuzziness rms_error =
           (if fless aspect_fuzziness (rel_diff (aspect img) (aspect other_img)) then Inr False
            else
              (case collect (map (\<lambda>k. fsquare ops
                                         (fsub ops (histogram img ! k) (histogram other_img ! k)))
                               [0..<length (histogram img)]) of
                 Inl e \<Rightarrow> Inl e
               | Inr deviations \<Rightarrow>
                   (case fsqrt ops (fdiv ops (fsum ops deviations) (length (histogram img))) of
                      Inl e \<Rightarrow> Inl e
                    | Inr rms \<Rightarrow> Inr (fless rms rms_error)))) \<and>
         (fless aspect_fuzziness (rel_diff (aspect img) (aspect other_img)) \<longrightarrow>
            (\<forall>h h'. compare_image_histograms ops (aspects_roughly_equal_spec rel_diff)
                      (img\<lparr>histogram := h\<rparr>) (other_img\<lparr>histogram := h'\<rparr>)
                      aspect_fuzziness rms_error = Inr False))"
  using assms(2)
  by (simp add: compare_image_histograms_def aspects_roughly_equal_spec_def get_deviations_def
      map2_nth [OF assms(1)] aspect_histogram_update split: sum.splits)

theorem histogram_comparison_formula_witness:
  "compare_image_histograms exact_ops (aspects_roughly_equal_spec absolute_difference)
     \<lparr>width = 100, height = 100, histogram = [Finite 0, Finite 0]\<rparr>
     \<lparr>width = 200, height = 200, histogram = [Finite 2, Finite 2]\<rparr>
     (Finite 0.05) (Finite 3) = Inr True \<and>
   compare_image_histograms exact_ops (aspects_roughly_equal_spec absolute_difference)
     \<lparr>width = 100, height = 100, histogram = [Finite 0, Finite 0]\<rparr>
     \<lparr>width = 200, height = 100, histogram = [Finite 0, Finite 0]\<rparr>
     (Finite 0.05) (Finite 3) = Inr False"
proof -
  have u: "[0..<2] = [0, 1]"
    by (simp add: upt_rec)
  show ?thesis
    using histogram_comparison_formula
        [of "\<lparr>width = 100, height = 100, histogram = [Finite 0, Finite 0]\<rparr>"
            "\<lparr>width = 200, height = 200, histogram = [Finite 2, Finite 2]\<rparr>"
            exact_ops absolute_difference "Finite 0.05" "Finite 3"]
      histogram_comparison_formula
        [of "\<lparr>width = 100, height = 100, histogram = [Finite 0, Finite 0]\<rparr>"
            "\<lparr>width = 200, height = 100, histogram = [Finite 0, Finite 0]\<rparr>"
            exact_ops absolute_difference "Finite 0.05" "Finite 3"]
    by (simp add: aspect_def absolute_difference_def exact_ops_def u)
qed

text \<open>
  Claim C7. The histogram comparator is monotonic in the threshold: a pair accepted at
  \<^verbatim>\<open>rms_error\<close> is accepted at every threshold \<^verbatim>\<open>rms_error' >= rms_error\<close>, for images and
  for files, with any aspect check, any decoder and any float arithmetic.
\<close>

theorem histogram_threshold_monotone:
  assumes "fle rms_error rms_error'"
  shows "(compare_image_histograms ops aspects_roughly_equal img other_img aspect_fuzziness
            rms_error = Inr True \<longrightarrow>
          compare_image_histograms ops aspects_roughly_equal img other_img aspect_fuzziness
            rms_error' = Inr True) \<and>
         (compare_histograms ops create aspects_roughly_equal file other_file aspect_fuzziness
            rms_error = Inr True \<longrightarrow>
          compare_histograms ops create aspects_roughly_equal file other_file aspect_fuzziness
            rms_error' = Inr True)"
proof -
  have image_level: "compare_image_histograms ops aspects_roughly_equal i j aspect_fuzziness
      rms_error' = Inr True"
    if "compare_image_histograms ops aspects_roughly_equal i j aspect_fuzziness rms_error
      = Inr True"
    for i j
    using that assms
    by (auto simp: compare_image_histograms_def split: if_splits sum.splits
        intro: fless_fle_trans)
  have "compare_histograms ops create aspects_roughly_equal file other_file aspect_fuzziness
      rms_error' = Inr True"
    if "compare_histograms ops create aspects_roughly_equal file other_file aspect_fuzziness
      rms_error = Inr True"
    using that image_level
    by (auto simp: compare_histograms_def split: sum.splits if_splits)
  with image_level show ?thesis
    by blast
qed

theorem histogram_threshold_monotone_witness:
  "compare_image_histograms exact_ops gate_open
     \<lparr>width = 100, height = 100, histogram = [Finite 0, Finite 0]\<rparr>
     \<lparr>width = 200, height = 200, histogram = [Finite 2, Finite 2]\<rparr>
     (Finite 0.05) (Finite 3) = Inr True \<and>
   compare_image_histograms exact_ops gate_open
     \<lparr>width = 100, height = 100, histogram = [Finite 0, Finite 0]\<rparr>
     \<lparr>width = 200, height = 200, histogram = [Finite 2, Finite 2]\<rparr>
     (Finite 0.05) (Finite 4) = Inr True"
proof -
  have le: "fle (Finite 3) (Finite 4)"
    by simp
  have at_3: "compare_image_histograms exact_ops gate_open
     \<lparr>width = 100, height = 100, histogram = [Finite 0, Finite 0]\<rparr>
     \<lparr>width = 200, height = 200, histogram = [Finite 2, Finite 2]\<rparr>
     (Finite 0.05) (Finite 3) = Inr True"
    by (simp add: compare_image_histograms_def get_deviations_def gate_open_def exact_ops_def)
  show ?thesis
    using at_3 histogram_threshold_monotone [OF le, of exact_ops gate_open
        "\<lparr>width = 100, height = 100, histogram = [Finite 0, Finite 0]\<rparr>"
        "\<lparr>width = 200, height = 200, histogram = [Finite 2, Finite 2]\<rparr>" "Finite 0.05"]
    by blast
qed

text \<open>
  Claim C4, as stated for a decoding failure of any kind, fails: the handler of
  \<^verbatim>\<open>compare_histograms\<close> names \<^verbatim>\<open>IOError\<close> and \<^verbatim>\<open>TypeError\<close> only, and a decoder that
  raises another exception (here \<^verbatim>\<open>ValueError\<close>) makes \<^verbatim>\<open>compare_histograms\<close> raise it.
\<close>

theorem decode_failure_propagates:
  "compare_histograms exact_ops decode_raising_ValueError gate_open ''a.jpg'' ''b.jpg''
     (Finite 0.05) (Finite 0.001) = Inl ValueError"
  by (simp add: compare_histograms_def decode_raising_ValueError_def)

text \<open>
  Claim C4, amended: if decoding fails with an \<^verbatim>\<open>IOError\<close> (that is, any \<^verbatim>\<open>OSError\<close>) or a
  \<^verbatim>\<open>TypeError\<close>, for the first file or for the second once the first is decoded, then
  \<^verbatim>\<open>compare_histograms\<close> returns false for the pair and raises nothing.
\<close>

theorem decode_failure_caught:
  assumes "create file = Inl e \<or> (create file = Inr img \<and> create other_file = Inl e)"
    and "e = IOError \<or> e = TypeError"
  shows "compare_histograms ops create aspects_roughly_equal file other_file aspect_fuzziness
           rms_error = Inr False"
  using assms by (auto simp: compare_histograms_def)

theorem decode_failure_caught_witness:
  "compare_histograms exact_ops
     (\<lambda>file. if file = ''broken.jpg'' then Inl IOError
        else Inr \<lparr>width = 100, height = 100, histogram = [Finite 0, Finite 0]\<rparr>)
     gate_open ''a.jpg'' ''broken.jpg'' (Finite 0.05) (Finite 0.001) = Inr False"
  using decode_failure_caught
    [of "\<lambda>file. if file = ''broken.jpg'' then Inl IOError
           else Inr \<lparr>width = 100, height = 100, histogram = [Finite 0, Finite 0]\<rparr>"
        "''a.jpg''" IOError "\<lparr>width = 100, height = 100, histogram = [Finite 0, Finite 0]\<rparr>"
        "''broken.jpg''" exact_ops gate_open "Finite 0.05" "Finite 0.001"]
  by simp

end
